theory Spec2Isabelle
  imports Main "HOL-Library.Sublist"
begin

section \<open>Audio capture in \<open>src/stream.js\<close>: data model\<close>

text \<open>
  The file holds one exported function, \<open>streamMicrophone\<close>, and inside it the
  source text of an audio worklet class, \<open>AudioCaptureProcessor\<close>, whose
  \<open>process\<close> method re-chunks the incoming sample blocks into frames.

  Samples are only ever copied, never computed with, so their type is a parameter
  \<open>'a\<close>; the same holds of the sample rate, of type \<open>'r\<close>. The frame size
  \<open>bufferSize\<close> is modelled as an integer-valued JavaScript number (\<open>int\<close>): it may
  be zero or negative, since the code accepts such values.
\<close>

subsection \<open>JavaScript values and exceptions\<close>

text \<open>The values an option of \<open>streamMicrophone\<close> can hold, as far as \<open>||\<close> tells them apart.\<close>

datatype jsval =
    JUndefined
  | JNull
  | JBool bool
  | JNum int
  | JNaN
  | JStr string

text \<open>Exceptions: a \<open>TypeError\<close> of the language, or a \<open>DOMException\<close> of the host with its name.\<close>

datatype exn = TypeError | DOMException string

text \<open>JavaScript's \<open>ToBoolean\<close>.\<close>

fun truthy :: "jsval \<Rightarrow> bool" where
  "truthy JUndefined = False"
| "truthy JNull = False"
| "truthy (JBool b) = b"
| "truthy (JNum n) = (n \<noteq> 0)"
| "truthy JNaN = False"
| "truthy (JStr s) = (s \<noteq> [])"

text \<open>The operator \<open>a || b\<close>: the left operand when it is truthy, else the right one.\<close>

definition js_or :: "jsval \<Rightarrow> jsval \<Rightarrow> jsval" where
  "js_or a b = (if truthy a then a else b)"

subsection \<open>Arrays\<close>

text \<open>
  \<open>Array.prototype.slice(start, end)\<close> on integer arguments; \<open>end\<close> absent is \<open>None\<close>.
  A negative index counts from the end of the array, and both indices are clamped to
  the array.
\<close>

definition Array_slice :: "'a list \<Rightarrow> int \<Rightarrow> int option \<Rightarrow> 'a list" where
  "Array_slice xs start end =
     (let len = int (length xs);
          k = (if start < 0 then max (len + start) 0 else min start len);
          relativeEnd = (case end of None \<Rightarrow> len | Some e \<Rightarrow> e);
          final = (if relativeEnd < 0 then max (len + relativeEnd) 0 else min relativeEnd len)
      in take (nat (final - k)) (drop (nat k) xs))"

subsection \<open>The worklet processor\<close>

text \<open>The fields the constructor sets on \<open>this\<close>.\<close>

record ('a, 'r) AudioCaptureProcessor =
  bufferSize :: int
  buffer :: "'a list"
  sampleRate :: 'r

text \<open>The object handed to \<open>this.port.postMessage\<close>.\<close>

record ('a, 'r) message =
  msg_samples :: "'a list"
  msg_sampleRate :: 'r

text \<open>The object handed to the caller's \<open>callback\<close>.\<close>

record ('a, 'r) frame =
  frame_samples :: "'a list"
  frame_sampleRate :: 'r
  bufferLength :: nat

text \<open>
  What one call of \<open>process\<close> leaves behind: the value it returns, the processor
  after the call, and the messages it posted, in order.
\<close>

record ('a, 'r) outcome =
  returned :: bool
  this :: "('a, 'r) AudioCaptureProcessor"
  posted :: "('a, 'r) message list"

text \<open>
  \<open>constructor(options)\<close>: the frame size comes from \<open>options.processorOptions\<close>, the
  buffer starts empty, and the sample rate is the one written into the worklet's source.
\<close>

definition constructor :: "int \<Rightarrow> 'r \<Rightarrow> ('a, 'r) AudioCaptureProcessor" where
  "constructor processorOptions_bufferSize rate =
     \<lparr>bufferSize = processorOptions_bufferSize, buffer = [], sampleRate = rate\<rparr>"

text \<open>
  The body of \<open>process\<close> once \<open>input = inputs[0]\<close> is read. \<open>input\<close> is the list of
  channels of the first input. With no channel nothing happens. Otherwise the samples of
  channel 0 are appended to the buffer, and then a single \<open>if\<close> (not a loop) posts the
  first \<open>bufferSize\<close> samples and keeps the rest.
\<close>

definition process_input ::
  "('a, 'r) AudioCaptureProcessor \<Rightarrow> 'a list list \<Rightarrow> ('a, 'r) outcome" where
  "process_input p input =
     (case input of
        [] \<Rightarrow> \<lparr>returned = True, this = p, posted = []\<rparr>
      | samples # _ \<Rightarrow>
          (let p1 = p\<lparr>buffer := buffer p @ samples\<rparr> in
           if int (length (buffer p1)) \<ge> bufferSize p1 then
             \<lparr>returned = True,
              this = p1\<lparr>buffer := Array_slice (buffer p1) (bufferSize p1) None\<rparr>,
              posted = [\<lparr>msg_samples = Array_slice (buffer p1) 0 (Some (bufferSize p1)),
                         msg_sampleRate = sampleRate p1\<rparr>]\<rparr>
           else \<lparr>returned = True, this = p1, posted = []\<rparr>))"

text \<open>
  \<open>process(inputs, outputs, parameters)\<close>. \<open>inputs\<close> is the list of the node's inputs,
  each a list of channels. Reading \<open>inputs[0].length\<close> when there is no input at all
  throws a \<open>TypeError\<close>. \<open>outputs\<close> and \<open>parameters\<close> are not used.
\<close>

definition process ::
  "('a, 'r) AudioCaptureProcessor \<Rightarrow> 'a list list list \<Rightarrow> exn + ('a, 'r) outcome" where
  "process p inputs =
     (case inputs of
        [] \<Rightarrow> Inl TypeError
      | input # _ \<Rightarrow> Inr (process_input p input))"

text \<open>
  The host calls \<open>process\<close> once for each block that arrives, one call after the other,
  on the processor the previous call left. \<open>feed\<close> gives the messages posted over a
  sequence of such calls and how it ended: the processor after the last call, or the
  exception of the call that threw (after which the host calls it no more).
\<close>

fun feed ::
  "('a, 'r) AudioCaptureProcessor \<Rightarrow> 'a list list list list \<Rightarrow>
     ('a, 'r) message list \<times> (exn + ('a, 'r) AudioCaptureProcessor)" where
  "feed p [] = ([], Inr p)"
| "feed p (inputs # rest) =
     (case process p inputs of
        Inl e \<Rightarrow> ([], Inl e)
      | Inr r \<Rightarrow> (let (ms, res) = feed (this r) rest in (posted r @ ms, res)))"

text \<open>The block of samples a call of \<open>process\<close> takes from its \<open>inputs\<close>: channel 0 of input 0.\<close>

definition block_of :: "'a list list list \<Rightarrow> 'a list" where
  "block_of inputs = (case inputs of (samples # _) # _ \<Rightarrow> samples | _ \<Rightarrow> [])"

text \<open>
  \<open>workletNode.port.onmessage\<close>: the argument the callback gets for one posted message.
  \<open>new Float32Array(event.data.samples)\<close> copies the samples one for one.
\<close>

definition onmessage :: "('a, 'r) message \<Rightarrow> ('a, 'r) frame" where
  "onmessage data =
     \<lparr>frame_samples = msg_samples data,
      frame_sampleRate = msg_sampleRate data,
      bufferLength = length (msg_samples data)\<rparr>"

text \<open>The frames the callback receives over a sequence of calls of \<open>process\<close>, in order.\<close>

definition delivered ::
  "('a, 'r) AudioCaptureProcessor \<Rightarrow> 'a list list list list \<Rightarrow> ('a, 'r) frame list" where
  "delivered p blocks = map onmessage (fst (feed p blocks))"

subsection \<open>The host and the session\<close>

text \<open>
  A media stream is the list of its tracks, as \<open>stream.getTracks()\<close> returns them.
\<close>

datatype track_kind = AudioKind | VideoKind

record track =
  track_id :: nat
  kind :: track_kind

type_synonym MediaStream = "track list"

text \<open>
  The second argument of \<open>streamMicrophone\<close>: left out (or \<open>undefined\<close>), in which case
  the default \<open>{}\<close> applies; \<open>null\<close>; or an object, of which the two properties that are
  read are kept (\<open>JUndefined\<close> for a property that is absent).
\<close>

record options =
  opt_bufferSize :: jsval
  opt_fromDisplay :: jsval

datatype options_arg = NoOptions | NullOptions | Options options

text \<open>
  The browser is not part of the repository. Each of its calls that can fail is a field
  of \<open>host\<close> giving the outcome of the call: an exception, or what the code goes on
  with. An audio context is known by its \<open>sampleRate\<close>.
\<close>

record 'r host =
  getDisplayMedia :: "exn + MediaStream"
  getUserMedia :: "exn + MediaStream"
  newAudioContext :: "exn + 'r"
  createObjectURL :: string
  addModule :: "exn option"
  newAudioWorkletNode :: "exn option"
  createMediaStreamSource :: "MediaStream \<Rightarrow> exn option"

text \<open>
  What the code does to the host: the calls it makes, in the order it makes them. A call
  that throws is in the trace too, as the last one.
\<close>

datatype action =
    RequestDisplayMedia
  | RequestUserMedia
  | CreateAudioContext
  | CreateObjectURL string
  | AddModule string
  | CreateWorkletNode jsval
  | CreateMediaStreamSource
  | ConnectSource
  | ConnectWorklet
  | DisconnectWorklet
  | DisconnectSource
  | CloseAudioContext
  | RevokeObjectURL string
  | StopTrack track

text \<open>The actions that give a resource back.\<close>

fun releases :: "action \<Rightarrow> bool" where
  "releases DisconnectWorklet = True"
| "releases DisconnectSource = True"
| "releases CloseAudioContext = True"
| "releases (RevokeObjectURL _) = True"
| "releases (StopTrack _) = True"
| "releases _ = False"

text \<open>
  The variables the returned \<open>stop\<close> closes over. \<open>stop\<close> tests \<open>workletNode\<close>,
  \<open>source\<close> and \<open>audioContext\<close> before it uses them, so they are optional here; the
  worklet node is known by the \<open>processorOptions.bufferSize\<close> it was made with, the
  source node by the stream it reads, the context by its sample rate.
\<close>

record 'r session =
  stream :: MediaStream
  audioContext :: "'r option"
  workletUrl :: string
  workletNode :: "jsval option"
  source :: "MediaStream option"

text \<open>
  The default of the parameter, \<open>options = {}\<close>: it applies when the argument is left
  out; in the empty object both properties are absent.
\<close>

definition options_of :: "options_arg \<Rightarrow> options" where
  "options_of arg =
     (case arg of
        Options given \<Rightarrow> given
      | _ \<Rightarrow> \<lparr>opt_bufferSize = JUndefined, opt_fromDisplay = JUndefined\<rparr>)"

text \<open>
  \<open>streamMicrophone(callback, options = {})\<close>, up to the \<open>return\<close>: the actions done and
  either the exception the promise rejects with or the session whose \<open>stop\<close> it
  resolves with. Reading a property of \<open>null\<close> throws a \<open>TypeError\<close>. There is no
  \<open>try\<close> in the function: an exception of a host call ends it there. \<open>callback\<close> is
  not called before the function returns and is left out; what it is later called with
  is \<open>onmessage\<close>.
\<close>

definition streamMicrophone ::
  "'r host \<Rightarrow> options_arg \<Rightarrow> action list \<times> (exn + 'r session)" where
  "streamMicrophone h arg =
     (if arg = NullOptions then ([], Inl TypeError)
      else
        (let bufferSize' = js_or (opt_bufferSize (options_of arg)) (JNum 4096);
             from_display = js_or (opt_fromDisplay (options_of arg)) (JBool False);
             request = (if truthy from_display then RequestDisplayMedia else RequestUserMedia);
             granted = (if truthy from_display then getDisplayMedia h else getUserMedia h)
         in case granted of
              Inl e \<Rightarrow> ([request], Inl e)
            | Inr stream' \<Rightarrow>
              (case newAudioContext h of
                 Inl e \<Rightarrow> ([request, CreateAudioContext], Inl e)
               | Inr sampleRate' \<Rightarrow>
                 (let workletUrl' = createObjectURL h;
                      loaded = [request, CreateAudioContext, CreateObjectURL workletUrl',
                                AddModule workletUrl']
                  in case addModule h of
                       Some e \<Rightarrow> (loaded, Inl e)
                     | None \<Rightarrow>
                       (case newAudioWorkletNode h of
                          Some e \<Rightarrow> (loaded @ [CreateWorkletNode bufferSize'], Inl e)
                        | None \<Rightarrow>
                          (case createMediaStreamSource h stream' of
                             Some e \<Rightarrow>
                               (loaded @ [CreateWorkletNode bufferSize', CreateMediaStreamSource],
                                Inl e)
                           | None \<Rightarrow>
                               (loaded @ [CreateWorkletNode bufferSize', CreateMediaStreamSource,
                                          ConnectSource, ConnectWorklet],
                                Inr \<lparr>stream = stream',
                                     audioContext = Some sampleRate',
                                     workletUrl = workletUrl',
                                     workletNode = Some bufferSize',
                                     source = Some stream'\<rparr>)))))))"

text \<open>
  The processor the host builds in the worklet for a session: \<open>constructor\<close> on the
  frame size in the node's \<open>processorOptions\<close>, when that is a number.
\<close>

definition processor_of :: "'r session \<Rightarrow> ('a, 'r) AudioCaptureProcessor option" where
  "processor_of s =
     (case (workletNode s, audioContext s) of
        (Some (JNum n), Some rate) \<Rightarrow> Some (constructor n rate)
      | _ \<Rightarrow> None)"

text \<open>The returned function \<open>stop\<close>: the actions it does, in order.\<close>

definition stop :: "'r session \<Rightarrow> action list" where
  "stop s =
     (if workletNode s \<noteq> None then [DisconnectWorklet] else []) @
     (if source s \<noteq> None then [DisconnectSource] else []) @
     (if audioContext s \<noteq> None then [CloseAudioContext] else []) @
     [RevokeObjectURL (workletUrl s)] @
     map StopTrack (stream s)"

text \<open>
  A host for the concrete runs below: the microphone gives one audio track, the display
  gives one video track and no audio track, and \<open>createMediaStreamSource\<close> throws
  \<open>InvalidStateError\<close> for a stream without audio track, as the Web Audio API lays
  down; every other call succeeds.
\<close>

definition granting_host :: "nat host" where
  "granting_host =
     \<lparr>getDisplayMedia = Inr [\<lparr>track_id = 1, kind = VideoKind\<rparr>],
      getUserMedia = Inr [\<lparr>track_id = 2, kind = AudioKind\<rparr>],
      newAudioContext = Inr 48000,
      createObjectURL = ''blob:1'',
      addModule = None,
      newAudioWorkletNode = None,
      createMediaStreamSource =
        (\<lambda>s. if AudioKind \<in> set (map kind s) then None
             else Some (DOMException ''InvalidStateError''))\<rparr>"

section \<open>The frame accumulator\<close>

subsection \<open>Slicing\<close>

lemma Array_slice_prefix:
  "0 \<le> n \<Longrightarrow> n \<le> int (length xs) \<Longrightarrow> Array_slice xs 0 (Some n) = take (nat n) xs"
  by (simp add: Array_slice_def Let_def min_def)

lemma Array_slice_suffix:
  "0 \<le> n \<Longrightarrow> n \<le> int (length xs) \<Longrightarrow> Array_slice xs n None = drop (nat n) xs"
  by (simp add: Array_slice_def Let_def min_def)

text \<open>
  Whatever \<open>n\<close> is, also negative or beyond the end, \<open>slice(0, n)\<close> and \<open>slice(n)\<close> cut
  the array in two at the same place.
\<close>

lemma Array_slice_split:
  "Array_slice xs 0 (Some n) @ Array_slice xs n None = xs"
  by (simp add: Array_slice_def Let_def min_def max_def)

subsection \<open>One call of \<open>process\<close>\<close>

lemma process_input_bufferSize: "bufferSize (this (process_input p input)) = bufferSize p"
  by (simp add: process_input_def Let_def split: list.splits)

lemma process_input_conserves:
  "concat (map msg_samples (posted (process_input p input))) @ buffer (this (process_input p input))
     = buffer p @ block_of (input # rest)"
  by (simp add: process_input_def block_of_def Let_def Array_slice_split split: list.splits)

lemma process_input_frame_length:
  "0 \<le> bufferSize p \<Longrightarrow> m \<in> set (posted (process_input p input)) \<Longrightarrow>
     int (length (msg_samples m)) = bufferSize p"
  by (auto simp add: process_input_def Let_def Array_slice_prefix split: list.splits if_splits)

lemma process_channel0:
  "process p ((samples # chans) # rest) =
     Inr (if bufferSize p \<le> int (length (buffer p) + length samples)
          then \<lparr>returned = True,
                this = p\<lparr>buffer := Array_slice (buffer p @ samples) (bufferSize p) None\<rparr>,
                posted = [\<lparr>msg_samples = Array_slice (buffer p @ samples) 0 (Some (bufferSize p)),
                           msg_sampleRate = sampleRate p\<rparr>]\<rparr>
          else \<lparr>returned = True, this = p\<lparr>buffer := buffer p @ samples\<rparr>, posted = []\<rparr>)"
  by (simp add: process_def process_input_def Let_def)

text \<open>
  C1, as the code has it. \<open>process\<close> tests the buffer once, with \<open>if\<close>, so for a
  positive frame size one call posts at most one frame: exactly one, of \<open>bufferSize\<close>
  samples, when the buffer with the block appended holds at least \<open>bufferSize\<close>
  samples, and none otherwise. The posted samples followed by the buffer left behind are
  the old buffer followed by the block. The buffer left behind is shorter than
  \<open>bufferSize\<close> exactly when the old buffer and the block together held fewer than
  twice \<open>bufferSize\<close> samples; the further full frames of an oversized block stay in
  the buffer.
\<close>

theorem process_posts_at_most_one_frame:
  assumes "0 < bufferSize p"
    and "process p ((samples # chans) # rest) = Inr r"
  shows "length (posted r) = (if bufferSize p \<le> int (length (buffer p) + length samples) then 1 else 0)
       \<and> concat (map msg_samples (posted r)) @ buffer (this r) = buffer p @ samples
       \<and> (\<forall>m \<in> set (posted r). int (length (msg_samples m)) = bufferSize p)
       \<and> (int (length (buffer (this r))) < bufferSize p
             \<longleftrightarrow> int (length (buffer p) + length samples) < 2 * bufferSize p)"
proof -
  from assms(2) have r: "r = process_input p (samples # chans)"
    by (simp add: process_def)
  have one: "length (posted r) = (if bufferSize p \<le> int (length (buffer p) + length samples) then 1 else 0)"
    using assms(2) by (auto simp add: process_channel0)
  have all: "concat (map msg_samples (posted r)) @ buffer (this r) = buffer p @ samples"
    using process_input_conserves [of p "samples # chans" "[]"] by (simp add: r block_of_def)
  have len: "\<forall>m \<in> set (posted r). int (length (msg_samples m)) = bufferSize p"
    using assms(1) process_input_frame_length [of p _ "samples # chans"] by (auto simp add: r)
  have rem: "int (length (buffer (this r))) < bufferSize p
           \<longleftrightarrow> int (length (buffer p) + length samples) < 2 * bufferSize p"
    using assms by (auto simp add: process_channel0 Array_slice_suffix split: if_splits)
  from one all len rem show ?thesis by blast
qed

text \<open>Frame size 2, one sample pending, a block of two: one frame, one sample left.\<close>

theorem process_posts_at_most_one_frame_witness:
  "0 < bufferSize \<lparr>bufferSize = 2, buffer = [7::nat], sampleRate = 48000::nat\<rparr>
   \<and> process \<lparr>bufferSize = 2, buffer = [7::nat], sampleRate = 48000::nat\<rparr> (([8, 9] # []) # [])
       = Inr \<lparr>returned = True, this = \<lparr>bufferSize = 2, buffer = [9], sampleRate = 48000\<rparr>,
              posted = [\<lparr>msg_samples = [7, 8], msg_sampleRate = 48000\<rparr>]\<rparr>
   \<and> length [\<lparr>msg_samples = [7, 8::nat], msg_sampleRate = 48000::nat\<rparr>] = 1
   \<and> (int (length [9::nat]) < 2 \<longleftrightarrow> int (length [7::nat] + length [8, 9::nat]) < 2 * 2)"
proof -
  let ?p = "\<lparr>bufferSize = 2, buffer = [7::nat], sampleRate = 48000::nat\<rparr>"
  let ?r = "\<lparr>returned = True, this = \<lparr>bufferSize = 2, buffer = [9::nat], sampleRate = 48000::nat\<rparr>,
              posted = [\<lparr>msg_samples = [7, 8], msg_sampleRate = 48000\<rparr>]\<rparr>"
  have pos: "0 < bufferSize ?p" by simp
  have run: "process ?p (([8, 9] # []) # []) = Inr ?r"
    by (simp add: process_def process_input_def Array_slice_def)
  from process_posts_at_most_one_frame [OF pos run] pos run show ?thesis by simp
qed

text \<open>
  C1 as the specification words it fails: with frame size 2 and an empty buffer, a block
  of five samples posts one frame and leaves three samples, which is not fewer than 2.
\<close>

theorem process_leaves_full_frame_counterexample:
  "(case process \<lparr>bufferSize = 2, buffer = [], sampleRate = 48000::nat\<rparr> [[[1, 2, 3, 4, 5::nat]]] of
      Inl e \<Rightarrow> False
    | Inr r \<Rightarrow> buffer (this r) = [3, 4, 5] \<and> map msg_samples (posted r) = [[1, 2]]
               \<and> \<not> int (length (buffer (this r))) < bufferSize (this r))"
  by (simp add: process_def process_input_def Array_slice_def)

text \<open>
  C2, as the code has it. For a frame size \<open>2 * k > 0\<close>, a block of \<open>5 * k\<close> samples
  (two and a half frames) given to a fresh processor posts exactly one frame, the first
  \<open>2 * k\<close> samples, and leaves the other \<open>3 * k\<close> samples (one and a half frames) in
  the buffer.
\<close>

theorem oversized_block_posts_one_frame:
  assumes "0 < k" and "length samples = 5 * k"
  shows "process (constructor (2 * int k) rate) ((samples # chans) # rest) =
           Inr \<lparr>returned = True,
                this = \<lparr>bufferSize = 2 * int k, buffer = drop (2 * k) samples, sampleRate = rate\<rparr>,
                posted = [\<lparr>msg_samples = take (2 * k) samples, msg_sampleRate = rate\<rparr>]\<rparr>
       \<and> length (take (2 * k) samples) = 2 * k
       \<and> length (drop (2 * k) samples) = 3 * k"
proof -
  have le: "2 * int k \<le> int (length samples)" using assms by simp
  have n: "nat (2 * int k) = 2 * k" by simp
  have "Array_slice samples (2 * int k) None = drop (2 * k) samples"
    using Array_slice_suffix [of "2 * int k" samples] le n by simp
  moreover have "Array_slice samples 0 (Some (2 * int k)) = take (2 * k) samples"
    using Array_slice_prefix [of "2 * int k" samples] le n by simp
  ultimately show ?thesis
    using assms le by (simp add: process_channel0 constructor_def)
qed

theorem oversized_block_posts_one_frame_witness:
  "(0::nat) < 1 \<and> length [1, 2, 3, 4, 5::nat] = 5 * 1
   \<and> process (constructor (2 * int 1) (48000::nat)) (([1, 2, 3, 4, 5::nat] # []) # []) =
       Inr \<lparr>returned = True,
            this = \<lparr>bufferSize = 2, buffer = [3, 4, 5], sampleRate = 48000\<rparr>,
            posted = [\<lparr>msg_samples = [1, 2], msg_sampleRate = 48000\<rparr>]\<rparr>"
proof -
  have k: "(0::nat) < 1" by simp
  have l: "length [1, 2, 3, 4, 5::nat] = 5 * 1" by simp
  from oversized_block_posts_one_frame [OF k l, of "48000::nat" "[]" "[]"] k l
  show ?thesis by simp
qed

text \<open>
  C2 as the specification words it fails: with frame size 4, a block of ten samples
  posts one frame, not two, and leaves six samples, not two.
\<close>

theorem oversized_block_counterexample:
  "(case process (constructor 4 (48000::nat)) [[[1, 2, 3, 4, 5, 6, 7, 8, 9, 10::nat]]] of
      Inl e \<Rightarrow> False
    | Inr r \<Rightarrow> length (posted r) = 1 \<and> length (buffer (this r)) = 6
               \<and> length (posted r) \<noteq> 2 \<and> length (buffer (this r)) \<noteq> 2)"
  by (simp add: process_def process_input_def Array_slice_def constructor_def)

subsection \<open>A sequence of calls\<close>

lemma feed_prefix:
  "prefix (concat (map msg_samples (fst (feed p blocks)))) (buffer p @ concat (map block_of blocks))"
proof (induction blocks arbitrary: p)
  case Nil
  show ?case by simp
next
  case (Cons inputs blocks)
  show ?case
  proof (cases inputs)
    case Nil
    then show ?thesis by (simp add: process_def)
  next
    case inputs: (Cons input others)
    let ?r = "process_input p input"
    have step: "concat (map msg_samples (posted ?r)) @ buffer (this ?r) = buffer p @ block_of inputs"
      using process_input_conserves [of p input others] inputs by simp
    have "prefix (concat (map msg_samples (fst (feed (this ?r) blocks))))
            (buffer (this ?r) @ concat (map block_of blocks))"
      by (rule Cons.IH)
    then have "prefix (concat (map msg_samples (posted ?r)) @ concat (map msg_samples (fst (feed (this ?r) blocks))))
            (concat (map msg_samples (posted ?r)) @ buffer (this ?r) @ concat (map block_of blocks))"
      by simp
    then have "prefix (concat (map msg_samples (posted ?r @ fst (feed (this ?r) blocks))))
            (buffer p @ block_of inputs @ concat (map block_of blocks))"
      using step by (metis append.assoc concat_append map_append)
    then show ?thesis
      using inputs by (simp add: process_def case_prod_beta)
  qed
qed

text \<open>
  When no call throws, nothing is lost: the posted samples followed by the buffer at the
  end are the buffer at the start followed by all the blocks.
\<close>

lemma feed_complete:
  "snd (feed p blocks) = Inr q \<Longrightarrow>
     concat (map msg_samples (fst (feed p blocks))) @ buffer q = buffer p @ concat (map block_of blocks)"
proof (induction blocks arbitrary: p)
  case Nil
  then show ?case by simp
next
  case (Cons inputs blocks)
  show ?case
  proof (cases inputs)
    case Nil
    with Cons.prems show ?thesis by (simp add: process_def)
  next
    case inputs: (Cons input others)
    let ?r = "process_input p input"
    have step: "concat (map msg_samples (posted ?r)) @ buffer (this ?r) = buffer p @ block_of inputs"
      using process_input_conserves [of p input others] inputs by simp
    from Cons.prems inputs have "snd (feed (this ?r) blocks) = Inr q"
      by (simp add: process_def case_prod_beta)
    then have "concat (map msg_samples (fst (feed (this ?r) blocks))) @ buffer q
                 = buffer (this ?r) @ concat (map block_of blocks)"
      by (rule Cons.IH)
    then have "concat (map msg_samples (posted ?r)) @ concat (map msg_samples (fst (feed (this ?r) blocks))) @ buffer q
                 = buffer p @ block_of inputs @ concat (map block_of blocks)"
      using step by (metis append.assoc)
    then show ?thesis
      using inputs by (simp add: process_def case_prod_beta)
  qed
qed

lemma feed_frame_length:
  "0 \<le> bufferSize p \<Longrightarrow> m \<in> set (fst (feed p blocks)) \<Longrightarrow>
     int (length (msg_samples m)) = bufferSize p"
proof (induction blocks arbitrary: p)
  case Nil
  then show ?case by simp
next
  case (Cons inputs blocks)
  show ?case
  proof (cases inputs)
    case Nil
    with Cons.prems show ?thesis by (simp add: process_def)
  next
    case inputs: (Cons input others)
    let ?r = "process_input p input"
    from Cons.prems(2) inputs
    have "m \<in> set (posted ?r) \<or> m \<in> set (fst (feed (this ?r) blocks))"
      by (simp add: process_def case_prod_beta)
    then show ?thesis
    proof
      assume "m \<in> set (posted ?r)"
      with Cons.prems(1) show ?thesis by (rule process_input_frame_length)
    next
      assume later: "m \<in> set (fst (feed (this ?r) blocks))"
      have "0 \<le> bufferSize (this ?r)"
        using Cons.prems(1) by (simp add: process_input_bufferSize)
      from Cons.IH [OF this later] show ?thesis
        by (simp add: process_input_bufferSize)
    qed
  qed
qed

lemma frame_samples_onmessage: "frame_samples (onmessage m) = msg_samples m"
  by (simp add: onmessage_def)

text \<open>A call of \<open>process\<close> that is given an input returns, so a sequence of such calls does.\<close>

lemma feed_returns:
  "[] \<notin> set blocks \<Longrightarrow> \<exists>q. snd (feed p blocks) = Inr q"
proof (induction blocks arbitrary: p)
  case Nil
  show ?case by simp
next
  case (Cons inputs blocks)
  from Cons.prems obtain input others where inputs: "inputs = input # others"
    by (cases inputs) auto
  from Cons.prems have "[] \<notin> set blocks" by simp
  from Cons.IH [OF this, of "this (process_input p input)"]
  show ?case by (simp add: inputs process_def case_prod_beta)
qed

text \<open>
  With blocks no longer than the frame size, a buffer shorter than the frame size stays
  shorter than the frame size: each call that fills it posts the full frame.
\<close>

lemma process_input_buffer_bound:
  assumes "int (length (buffer p)) < bufferSize p"
    and "int (length (block_of (input # others))) \<le> bufferSize p"
  shows "int (length (buffer (this (process_input p input)))) < bufferSize p"
  using assms
  by (auto simp add: process_input_def block_of_def Let_def Array_slice_suffix split: list.splits)

lemma feed_buffer_bound:
  "int (length (buffer p)) < bufferSize p \<Longrightarrow>
   \<forall>b \<in> set blocks. int (length (block_of b)) \<le> bufferSize p \<Longrightarrow>
   snd (feed p blocks) = Inr q \<Longrightarrow>
   int (length (buffer q)) < bufferSize p"
proof (induction blocks arbitrary: p)
  case Nil
  then show ?case by simp
next
  case (Cons inputs blocks)
  show ?case
  proof (cases inputs)
    case Nil
    with Cons.prems show ?thesis by (simp add: process_def)
  next
    case inputs: (Cons input others)
    let ?r = "process_input p input"
    have size: "bufferSize (this ?r) = bufferSize p" by (rule process_input_bufferSize)
    from Cons.prems(1,2) inputs have "int (length (buffer (this ?r))) < bufferSize p"
      using process_input_buffer_bound [of p input others] by simp
    then have a: "int (length (buffer (this ?r))) < bufferSize (this ?r)" by (simp add: size)
    from Cons.prems(2) have b: "\<forall>b \<in> set blocks. int (length (block_of b)) \<le> bufferSize (this ?r)"
      by (simp add: size)
    from Cons.prems(3) inputs have c: "snd (feed (this ?r) blocks) = Inr q"
      by (simp add: process_def case_prod_beta)
    from Cons.IH [OF a b c] show ?thesis by (simp add: size)
  qed
qed

text \<open>
  C3. Whatever the frame size and whatever blocks arrive, the samples of the frames the
  callback receives from a fresh processor, put end to end in the order of delivery, are a
  prefix of the samples of the blocks put end to end in the order of arrival. When every
  call is given an input, the sequence of calls returns; and whenever it returns, the
  delivered samples followed by the samples still in the buffer are exactly the samples
  of the blocks, so no sample is lost, repeated or moved. With a positive frame size and
  blocks no longer than it, what stays in the buffer is less than one frame.
\<close>

theorem delivered_samples_conserved:
  "prefix (concat (map frame_samples (delivered (constructor n rate) blocks)))
          (concat (map block_of blocks))
   \<and> ([] \<notin> set blocks \<longrightarrow> (\<exists>q. snd (feed (constructor n rate) blocks) = Inr q))
   \<and> (\<forall>q. snd (feed (constructor n rate) blocks) = Inr q \<longrightarrow>
         concat (map frame_samples (delivered (constructor n rate) blocks)) @ buffer q
           = concat (map block_of blocks)
         \<and> (0 < n \<and> (\<forall>b \<in> set blocks. int (length (block_of b)) \<le> n)
              \<longrightarrow> int (length (buffer q)) < n))"
proof -
  let ?p = "constructor n rate :: ('a, 'b) AudioCaptureProcessor"
  have del: "concat (map frame_samples (delivered ?p blocks))
               = concat (map msg_samples (fst (feed ?p blocks)))"
    by (simp add: delivered_def comp_def frame_samples_onmessage)
  have pre: "prefix (concat (map frame_samples (delivered ?p blocks))) (concat (map block_of blocks))"
    using feed_prefix [of ?p blocks] by (simp add: del) (simp add: constructor_def)
  have ret: "\<exists>q. snd (feed ?p blocks) = Inr q" if "[] \<notin> set blocks"
    using that by (rule feed_returns)
  have all: "concat (map frame_samples (delivered ?p blocks)) @ buffer q = concat (map block_of blocks)"
    if "snd (feed ?p blocks) = Inr q" for q
    using feed_complete [OF that] by (simp add: del) (simp add: constructor_def)
  have bound: "int (length (buffer q)) < n"
    if "snd (feed ?p blocks) = Inr q" and "0 < n"
      and "\<forall>b \<in> set blocks. int (length (block_of b)) \<le> n" for q
  proof -
    have a: "int (length (buffer ?p)) < bufferSize ?p" using that(2) by (simp add: constructor_def)
    have b: "\<forall>b \<in> set blocks. int (length (block_of b)) \<le> bufferSize ?p"
      using that(3) by (simp add: constructor_def)
    from feed_buffer_bound [OF a b that(1)] show ?thesis by (simp add: constructor_def)
  qed
  from pre ret all bound show ?thesis by blast
qed

text \<open>Frame size 2 and blocks of one, two and two samples: two frames, one sample pending.\<close>

theorem delivered_samples_conserved_witness:
  "[] \<notin> set [[[[5::nat]]], [[[6, 7]]], [[[8, 9]]]]
   \<and> (0::int) < 2
   \<and> map (\<lambda>b. length (block_of b)) [[[[5::nat]]], [[[6, 7]]], [[[8, 9]]]] = [1, 2, 2]
   \<and> feed (constructor 2 (48000::nat)) [[[[5::nat]]], [[[6, 7]]], [[[8, 9]]]]
     = ([\<lparr>msg_samples = [5, 6], msg_sampleRate = 48000\<rparr>,
         \<lparr>msg_samples = [7, 8], msg_sampleRate = 48000\<rparr>],
        Inr \<lparr>bufferSize = 2, buffer = [9], sampleRate = 48000\<rparr>)
   \<and> concat (map frame_samples (delivered (constructor 2 (48000::nat)) [[[[5::nat]]], [[[6, 7]]], [[[8, 9]]]]))
       @ [9] = [5, 6, 7, 8, 9]
   \<and> prefix (concat (map frame_samples (delivered (constructor 2 (48000::nat)) [[[[5::nat]]], [[[6, 7]]], [[[8, 9]]]])))
            [5, 6, 7, 8, 9]
   \<and> int (length [9::nat]) < 2"
proof -
  let ?blocks = "[[[[5::nat]]], [[[6, 7]]], [[[8, 9]]]]"
  let ?q = "\<lparr>bufferSize = 2, buffer = [9::nat], sampleRate = 48000::nat\<rparr>"
  have inputs: "[] \<notin> set ?blocks" by simp
  have sizes: "\<forall>b \<in> set ?blocks. int (length (block_of b)) \<le> 2" by (simp add: block_of_def)
  have run: "feed (constructor 2 (48000::nat)) ?blocks
     = ([\<lparr>msg_samples = [5, 6], msg_sampleRate = 48000\<rparr>,
         \<lparr>msg_samples = [7, 8], msg_sampleRate = 48000\<rparr>], Inr ?q)"
    by (simp add: process_def process_input_def Array_slice_def constructor_def)
  then have ends: "snd (feed (constructor 2 (48000::nat)) ?blocks) = Inr ?q" by simp
  have blocks: "concat (map block_of ?blocks) = [5, 6, 7, 8, 9]" by (simp add: block_of_def)
  from delivered_samples_conserved [of 2 "48000::nat" ?blocks] inputs sizes ends blocks run
  show ?thesis by (simp add: block_of_def)
qed

text \<open>
  C4. For a frame size that is not negative, every frame the callback receives, over any
  sequence of blocks and from any state of the processor, has exactly \<open>bufferSize\<close>
  samples, and its \<open>bufferLength\<close> is \<open>bufferSize\<close>.
\<close>

theorem delivered_frame_length:
  assumes "0 \<le> bufferSize p" and "f \<in> set (delivered p blocks)"
  shows "int (length (frame_samples f)) = bufferSize p \<and> int (bufferLength f) = bufferSize p"
proof -
  from assms(2) obtain m where m: "m \<in> set (fst (feed p blocks))" and f: "f = onmessage m"
    by (auto simp add: delivered_def)
  from feed_frame_length [OF assms(1) m] show ?thesis
    by (simp add: f onmessage_def)
qed

text \<open>Frame size 2 and blocks of three samples and of one: two frames of two samples.\<close>

theorem delivered_frame_length_witness:
  "0 \<le> bufferSize (constructor 2 (48000::nat) :: (nat, nat) AudioCaptureProcessor)
   \<and> delivered (constructor 2 (48000::nat)) [[[[1, 2, 3::nat]]], [[[4]]]]
       = [\<lparr>frame_samples = [1, 2], frame_sampleRate = 48000, bufferLength = 2\<rparr>,
          \<lparr>frame_samples = [3, 4], frame_sampleRate = 48000, bufferLength = 2\<rparr>]
   \<and> int (length (frame_samples \<lparr>frame_samples = [3, 4::nat], frame_sampleRate = 48000::nat, bufferLength = 2\<rparr>)) = 2
   \<and> int (bufferLength \<lparr>frame_samples = [3, 4::nat], frame_sampleRate = 48000::nat, bufferLength = 2\<rparr>) = 2"
proof -
  let ?p = "constructor 2 (48000::nat) :: (nat, nat) AudioCaptureProcessor"
  let ?f = "\<lparr>frame_samples = [3, 4::nat], frame_sampleRate = 48000::nat, bufferLength = 2\<rparr>"
  have size: "0 \<le> bufferSize ?p" by (simp add: constructor_def)
  have run: "delivered ?p [[[[1, 2, 3::nat]]], [[[4]]]]
       = [\<lparr>frame_samples = [1, 2], frame_sampleRate = 48000, bufferLength = 2\<rparr>, ?f]"
    by (simp add: delivered_def process_def process_input_def Array_slice_def constructor_def
        onmessage_def)
  have mem: "?f \<in> set (delivered ?p [[[[1, 2, 3::nat]]], [[[4]]]])"
    unfolding run by simp
  from delivered_frame_length [OF size mem] size run show ?thesis by (simp add: constructor_def)
qed

text \<open>
  C5, as the code has it. An input without any channel changes nothing and posts
  nothing, in every state. A channel 0 of no samples changes nothing and posts nothing
  in every state whose buffer holds fewer than \<open>bufferSize\<close> samples.
\<close>

theorem empty_block_noop_below_frame_size:
  "process p ([] # rest) = Inr \<lparr>returned = True, this = p, posted = []\<rparr>
   \<and> (int (length (buffer p)) < bufferSize p \<longrightarrow>
        process p (([] # chans) # rest) = Inr \<lparr>returned = True, this = p, posted = []\<rparr>)"
  by (simp add: process_def process_input_def)

theorem empty_block_noop_below_frame_size_witness:
  "process \<lparr>bufferSize = 2, buffer = [5::nat], sampleRate = 48000::nat\<rparr> ([] # [])
     = Inr \<lparr>returned = True, this = \<lparr>bufferSize = 2, buffer = [5::nat], sampleRate = 48000::nat\<rparr>, posted = []\<rparr>
   \<and> int (length (buffer \<lparr>bufferSize = 2, buffer = [5::nat], sampleRate = 48000::nat\<rparr>))
        < bufferSize \<lparr>bufferSize = 2, buffer = [5::nat], sampleRate = 48000::nat\<rparr>
   \<and> process \<lparr>bufferSize = 2, buffer = [5::nat], sampleRate = 48000::nat\<rparr> (([] # []) # [])
     = Inr \<lparr>returned = True, this = \<lparr>bufferSize = 2, buffer = [5::nat], sampleRate = 48000::nat\<rparr>, posted = []\<rparr>"
  using empty_block_noop_below_frame_size
          [of "\<lparr>bufferSize = 2, buffer = [5::nat], sampleRate = 48000::nat\<rparr>" "[]" "[]"]
  by simp

text \<open>
  C5 as the specification words it fails in the state a block of five samples leaves
  with frame size 2: three samples are pending, and a channel 0 of no samples then posts
  a frame and shortens the buffer.
\<close>

theorem empty_block_counterexample:
  "(case process \<lparr>bufferSize = 2, buffer = [3, 4, 5::nat], sampleRate = 48000::nat\<rparr> [[[]]] of
      Inl e \<Rightarrow> False
    | Inr r \<Rightarrow> buffer (this r) = [5] \<and> map msg_samples (posted r) = [[3, 4]]
               \<and> buffer (this r) \<noteq> [3, 4, 5] \<and> length (posted r) \<noteq> 0)"
  by (simp add: process_def process_input_def Array_slice_def)

section \<open>Starting and stopping a session\<close>

text \<open>What a start that resolves has built, read off the function's one successful path.\<close>

lemma streamMicrophone_resolved:
  assumes "snd (streamMicrophone h arg) = Inr s"
  shows "arg \<noteq> NullOptions
       \<and> Inr (stream s) = (if truthy (js_or (opt_fromDisplay (options_of arg)) (JBool False))
                            then getDisplayMedia h else getUserMedia h)
       \<and> (\<exists>rate. newAudioContext h = Inr rate \<and> audioContext s = Some rate)
       \<and> workletUrl s = createObjectURL h
       \<and> workletNode s = Some (js_or (opt_bufferSize (options_of arg)) (JNum 4096))
       \<and> source s = Some (stream s)"
  using assms
  by (auto simp add: streamMicrophone_def Let_def split: sum.splits option.splits if_splits)

text \<open>
  Whether a start fails, and with which exception, is decided by the host calls alone, in
  the order the function makes them; \<open>bufferSize\<close> plays no part in it.
\<close>

lemma streamMicrophone_outcome:
  "map_sum id (\<lambda>s. ()) (snd (streamMicrophone h (Options opts)))
     = (case (if truthy (opt_fromDisplay opts) then getDisplayMedia h else getUserMedia h) of
          Inl e \<Rightarrow> Inl e
        | Inr st \<Rightarrow>
           (case newAudioContext h of
              Inl e \<Rightarrow> Inl e
            | Inr rate \<Rightarrow>
               (case addModule h of
                  Some e \<Rightarrow> Inl e
                | None \<Rightarrow>
                   (case newAudioWorkletNode h of
                      Some e \<Rightarrow> Inl e
                    | None \<Rightarrow>
                       (case createMediaStreamSource h st of
                          Some e \<Rightarrow> Inl e
                        | None \<Rightarrow> Inr ())))))"
  by (simp add: streamMicrophone_def options_of_def Let_def js_or_def split: sum.splits option.splits)

lemma streamMicrophone_actions:
  "filter releases (fst (streamMicrophone h arg)) = []"
  by (simp add: streamMicrophone_def Let_def split: sum.splits option.splits)

text \<open>
  C6, as the code has it. \<open>streamMicrophone\<close> does not check the frame size and has no
  configuration error: with a frame size \<open>n \<le> 0\<close> it fails exactly when, and with the
  exception with which, it fails for the frame size 4096. When it resolves, the frame
  size 0 has been replaced by the default 4096, and a negative frame size has gone
  unchanged into the worklet node's options and from there into the processor.
\<close>

theorem frame_size_not_validated:
  assumes "opt_bufferSize opts = JNum n" and "n \<le> 0"
  shows "map_sum id (\<lambda>s. ()) (snd (streamMicrophone h (Options opts)))
           = map_sum id (\<lambda>s. ()) (snd (streamMicrophone h (Options (opts\<lparr>opt_bufferSize := JNum 4096\<rparr>))))
       \<and> (\<forall>s. snd (streamMicrophone h (Options opts)) = Inr s \<longrightarrow>
             workletNode s = Some (JNum (if n = 0 then 4096 else n))
             \<and> (\<exists>rate. processor_of s =
                   Some (constructor (if n = 0 then 4096 else n) rate :: ('a, 'r) AudioCaptureProcessor)))"
proof -
  have same: "map_sum id (\<lambda>s. ()) (snd (streamMicrophone h (Options opts)))
           = map_sum id (\<lambda>s. ()) (snd (streamMicrophone h (Options (opts\<lparr>opt_bufferSize := JNum 4096\<rparr>))))"
    by (simp only: streamMicrophone_outcome) simp
  have reach: "workletNode s = Some (JNum (if n = 0 then 4096 else n))
             \<and> (\<exists>rate. processor_of s =
                   Some (constructor (if n = 0 then 4096 else n) rate :: ('a, 'r) AudioCaptureProcessor))"
    if "snd (streamMicrophone h (Options opts)) = Inr s" for s
  proof -
    from streamMicrophone_resolved [OF that] assms(1)
    have node: "workletNode s = Some (JNum (if n = 0 then 4096 else n))"
      and ctx: "\<exists>rate. audioContext s = Some rate"
      by (auto simp add: options_of_def js_or_def)
    from ctx obtain rate where "audioContext s = Some rate" ..
    with node have "processor_of s =
        Some (constructor (if n = 0 then 4096 else n) rate :: ('a, 'r) AudioCaptureProcessor)"
      by (simp add: processor_of_def)
    with node show ?thesis by blast
  qed
  from same reach show ?thesis by blast
qed

theorem frame_size_not_validated_witness:
  "opt_bufferSize \<lparr>opt_bufferSize = JNum (- 5), opt_fromDisplay = JUndefined\<rparr> = JNum (- 5)
   \<and> (- 5 :: int) \<le> 0
   \<and> snd (streamMicrophone granting_host (Options \<lparr>opt_bufferSize = JNum (- 5), opt_fromDisplay = JUndefined\<rparr>))
        = Inr \<lparr>stream = [\<lparr>track_id = 2, kind = AudioKind\<rparr>], audioContext = Some 48000,
               workletUrl = ''blob:1'', workletNode = Some (JNum (- 5)),
               source = Some [\<lparr>track_id = 2, kind = AudioKind\<rparr>]\<rparr>
   \<and> processor_of \<lparr>stream = [\<lparr>track_id = 2, kind = AudioKind\<rparr>], audioContext = Some (48000::nat),
               workletUrl = ''blob:1'', workletNode = Some (JNum (- 5)),
               source = Some [\<lparr>track_id = 2, kind = AudioKind\<rparr>]\<rparr>
        = Some (constructor (- 5) 48000 :: (nat, nat) AudioCaptureProcessor)"
proof -
  let ?opts = "\<lparr>opt_bufferSize = JNum (- 5), opt_fromDisplay = JUndefined\<rparr>"
  have a: "opt_bufferSize ?opts = JNum (- 5)" by simp
  have b: "(- 5 :: int) \<le> 0" by simp
  have run: "snd (streamMicrophone granting_host (Options ?opts))
        = Inr \<lparr>stream = [\<lparr>track_id = 2, kind = AudioKind\<rparr>], audioContext = Some 48000,
               workletUrl = ''blob:1'', workletNode = Some (JNum (- 5)),
               source = Some [\<lparr>track_id = 2, kind = AudioKind\<rparr>]\<rparr>"
    by (simp add: streamMicrophone_def granting_host_def options_of_def js_or_def Let_def)
  from frame_size_not_validated [OF a b, of granting_host] a b run show ?thesis
    by (simp add: processor_of_def)
qed

text \<open>
  C6 as the specification words it fails: on a host where every call succeeds, a start
  with \<open>bufferSize: -5\<close> resolves, and the processor is built with the frame size -5.
\<close>

theorem negative_frame_size_counterexample:
  "(case snd (streamMicrophone granting_host
                (Options \<lparr>opt_bufferSize = JNum (- 5), opt_fromDisplay = JUndefined\<rparr>)) of
      Inl e \<Rightarrow> False
    | Inr s \<Rightarrow> workletNode s = Some (JNum (- 5))
               \<and> processor_of s = Some (constructor (- 5) 48000 :: (nat, nat) AudioCaptureProcessor))"
  by (simp add: streamMicrophone_def granting_host_def options_of_def js_or_def processor_of_def Let_def)

text \<open>
  C7. In a session that \<open>streamMicrophone\<close> resolves with, the frame size given to the
  worklet node is \<open>options.bufferSize\<close> itself when that is truthy, and 4096 otherwise:
  4096 when it is absent, 0, \<open>null\<close>, \<open>NaN\<close>, \<open>false\<close> or the empty string, and also
  when no options are passed at all; every number other than 0, negative ones too, is
  used as it is.
\<close>

theorem frame_size_default:
  "(snd (streamMicrophone h (Options opts)) = Inr s \<longrightarrow>
      workletNode s = Some (if truthy (opt_bufferSize opts) then opt_bufferSize opts else JNum 4096)
      \<and> (opt_bufferSize opts \<in> {JUndefined, JNum 0, JNull, JNaN, JBool False, JStr []}
            \<longrightarrow> workletNode s = Some (JNum 4096))
      \<and> (\<forall>n. n \<noteq> 0 \<and> opt_bufferSize opts = JNum n \<longrightarrow> workletNode s = Some (JNum n)))
   \<and> (snd (streamMicrophone h NoOptions) = Inr s' \<longrightarrow> workletNode s' = Some (JNum 4096))"
proof -
  have given: "workletNode s = Some (if truthy (opt_bufferSize opts) then opt_bufferSize opts else JNum 4096)"
    if "snd (streamMicrophone h (Options opts)) = Inr s"
    using streamMicrophone_resolved [OF that] by (simp add: options_of_def js_or_def)
  have absent: "workletNode s' = Some (JNum 4096)"
    if "snd (streamMicrophone h NoOptions) = Inr s'"
    using streamMicrophone_resolved [OF that] by (simp add: options_of_def js_or_def)
  from given absent show ?thesis by auto
qed

theorem frame_size_default_witness:
  "snd (streamMicrophone granting_host (Options \<lparr>opt_bufferSize = JNum (- 3), opt_fromDisplay = JUndefined\<rparr>))
     = Inr \<lparr>stream = [\<lparr>track_id = 2, kind = AudioKind\<rparr>], audioContext = Some 48000,
            workletUrl = ''blob:1'', workletNode = Some (JNum (- 3)),
            source = Some [\<lparr>track_id = 2, kind = AudioKind\<rparr>]\<rparr>
   \<and> snd (streamMicrophone granting_host NoOptions)
     = Inr \<lparr>stream = [\<lparr>track_id = 2, kind = AudioKind\<rparr>], audioContext = Some 48000,
            workletUrl = ''blob:1'', workletNode = Some (JNum 4096),
            source = Some [\<lparr>track_id = 2, kind = AudioKind\<rparr>]\<rparr>
   \<and> truthy (JNum (- 3)) \<and> - 3 \<noteq> (0::int)"
proof -
  let ?opts = "\<lparr>opt_bufferSize = JNum (- 3), opt_fromDisplay = JUndefined\<rparr>"
  let ?s = "\<lparr>stream = [\<lparr>track_id = 2, kind = AudioKind\<rparr>], audioContext = Some (48000::nat),
            workletUrl = ''blob:1'', workletNode = Some (JNum (- 3)),
            source = Some [\<lparr>track_id = 2, kind = AudioKind\<rparr>]\<rparr>"
  let ?s' = "\<lparr>stream = [\<lparr>track_id = 2, kind = AudioKind\<rparr>], audioContext = Some (48000::nat),
            workletUrl = ''blob:1'', workletNode = Some (JNum 4096),
            source = Some [\<lparr>track_id = 2, kind = AudioKind\<rparr>]\<rparr>"
  have given: "snd (streamMicrophone granting_host (Options ?opts)) = Inr ?s"
    by (simp add: streamMicrophone_def granting_host_def options_of_def js_or_def Let_def)
  have absent: "snd (streamMicrophone granting_host NoOptions) = Inr ?s'"
    by (simp add: streamMicrophone_def granting_host_def options_of_def js_or_def Let_def)
  from frame_size_default [of granting_host ?opts ?s ?s'] given absent show ?thesis by simp
qed

text \<open>
  C8. For a session that \<open>streamMicrophone\<close> resolved with, \<open>stop\<close> does exactly these
  actions in this order: it disconnects the worklet node, disconnects the source node,
  closes the audio context, revokes the blob URL, and then stops every track of the
  stream, in the order \<open>getTracks\<close> gives them.
\<close>

theorem stop_order:
  assumes "snd (streamMicrophone h arg) = Inr s"
  shows "stop s = [DisconnectWorklet, DisconnectSource, CloseAudioContext,
                   RevokeObjectURL (workletUrl s)] @ map StopTrack (stream s)"
  using streamMicrophone_resolved [OF assms] by (auto simp add: stop_def)

theorem stop_order_witness:
  "snd (streamMicrophone granting_host NoOptions)
     = Inr \<lparr>stream = [\<lparr>track_id = 2, kind = AudioKind\<rparr>], audioContext = Some 48000,
            workletUrl = ''blob:1'', workletNode = Some (JNum 4096),
            source = Some [\<lparr>track_id = 2, kind = AudioKind\<rparr>]\<rparr>
   \<and> stop \<lparr>stream = [\<lparr>track_id = 2, kind = AudioKind\<rparr>], audioContext = Some (48000::nat),
            workletUrl = ''blob:1'', workletNode = Some (JNum 4096),
            source = Some [\<lparr>track_id = 2, kind = AudioKind\<rparr>]\<rparr>
     = [DisconnectWorklet, DisconnectSource, CloseAudioContext, RevokeObjectURL ''blob:1'',
        StopTrack \<lparr>track_id = 2, kind = AudioKind\<rparr>]"
proof -
  have run: "snd (streamMicrophone granting_host NoOptions)
     = Inr \<lparr>stream = [\<lparr>track_id = 2, kind = AudioKind\<rparr>], audioContext = Some 48000,
            workletUrl = ''blob:1'', workletNode = Some (JNum 4096),
            source = Some [\<lparr>track_id = 2, kind = AudioKind\<rparr>]\<rparr>"
    by (simp add: streamMicrophone_def granting_host_def options_of_def js_or_def Let_def)
  from stop_order [OF run] run show ?thesis by simp
qed

text \<open>
  When and with what a start rejects, for every argument: with the \<open>TypeError\<close> of
  reading \<open>null\<close>, or else with the exception of the first host call that throws, in
  the order capture request, audio context, worklet module, worklet node, media stream
  source.
\<close>

lemma streamMicrophone_rejection:
  "map_sum id (\<lambda>s. ()) (snd (streamMicrophone h arg))
     = (if arg = NullOptions then Inl TypeError
        else
          case (if truthy (js_or (opt_fromDisplay (options_of arg)) (JBool False))
                then getDisplayMedia h else getUserMedia h) of
            Inl x \<Rightarrow> Inl x
          | Inr st \<Rightarrow>
             (case newAudioContext h of
                Inl x \<Rightarrow> Inl x
              | Inr rate \<Rightarrow>
                 (case addModule h of
                    Some x \<Rightarrow> Inl x
                  | None \<Rightarrow>
                     (case newAudioWorkletNode h of
                        Some x \<Rightarrow> Inl x
                      | None \<Rightarrow>
                         (case createMediaStreamSource h st of
                            Some x \<Rightarrow> Inl x
                          | None \<Rightarrow> Inr ())))))"
  by (simp add: streamMicrophone_def Let_def split: sum.splits option.splits)

text \<open>
  C9, as the code has it. When a start fails, at whatever step, it has done no releasing
  action: no disconnect, no close of the audio context, no revocation of the blob URL and
  no stop of a track. What was acquired before the failing step stays acquired when the
  promise rejects, and the promise rejects with the exception of the failing step: the
  \<open>TypeError\<close> of reading \<open>null\<close> options, or the exception of the first host call
  that throws.
\<close>

theorem failed_start_releases_nothing:
  assumes "snd (streamMicrophone h arg) = Inl e"
  shows "filter releases (fst (streamMicrophone h arg)) = []
       \<and> Inl e =
           (if arg = NullOptions then Inl TypeError
            else
              case (if truthy (js_or (opt_fromDisplay (options_of arg)) (JBool False))
                    then getDisplayMedia h else getUserMedia h) of
                Inl x \<Rightarrow> Inl x
              | Inr st \<Rightarrow>
                 (case newAudioContext h of
                    Inl x \<Rightarrow> Inl x
                  | Inr rate \<Rightarrow>
                     (case addModule h of
                        Some x \<Rightarrow> Inl x
                      | None \<Rightarrow>
                         (case newAudioWorkletNode h of
                            Some x \<Rightarrow> Inl x
                          | None \<Rightarrow>
                             (case createMediaStreamSource h st of
                                Some x \<Rightarrow> Inl x
                              | None \<Rightarrow> Inr ())))))"
proof -
  have "map_sum id (\<lambda>s. ()) (snd (streamMicrophone h arg)) = Inl e"
    by (simp add: assms)
  from this [unfolded streamMicrophone_rejection, symmetric] streamMicrophone_actions [of h arg]
  show ?thesis by (rule conjI [rotated])
qed

text \<open>
  The microphone grants a stream, the audio context is made, then loading the worklet
  module throws: the start rejects with that exception and releases nothing.
\<close>

theorem failed_start_releases_nothing_witness:
  "streamMicrophone (granting_host\<lparr>addModule := Some (DOMException ''AbortError'')\<rparr>) NoOptions
     = ([RequestUserMedia, CreateAudioContext, CreateObjectURL ''blob:1'', AddModule ''blob:1''],
        Inl (DOMException ''AbortError''))
   \<and> filter releases [RequestUserMedia, CreateAudioContext, CreateObjectURL ''blob:1'', AddModule ''blob:1''] = []
   \<and> getUserMedia (granting_host\<lparr>addModule := Some (DOMException ''AbortError'')\<rparr>)
       = Inr [\<lparr>track_id = 2, kind = AudioKind\<rparr>]
   \<and> newAudioContext (granting_host\<lparr>addModule := Some (DOMException ''AbortError'')\<rparr>) = Inr 48000
   \<and> addModule (granting_host\<lparr>addModule := Some (DOMException ''AbortError'')\<rparr>)
       = Some (DOMException ''AbortError'')"
proof -
  let ?h = "granting_host\<lparr>addModule := Some (DOMException ''AbortError'')\<rparr>"
  have run: "streamMicrophone ?h NoOptions
     = ([RequestUserMedia, CreateAudioContext, CreateObjectURL ''blob:1'', AddModule ''blob:1''],
        Inl (DOMException ''AbortError''))"
    by (simp add: streamMicrophone_def granting_host_def options_of_def js_or_def Let_def)
  then have failed: "snd (streamMicrophone ?h NoOptions) = Inl (DOMException ''AbortError'')"
    by simp
  from failed_start_releases_nothing [OF failed] run show ?thesis by (simp add: granting_host_def)
qed

text \<open>
  C9 as the specification words it fails: the microphone grants a stream with one track,
  then loading the worklet module fails. The start rejects with that exception, and
  neither the track is stopped, nor the audio context closed, nor the blob URL revoked.
\<close>

theorem failed_start_leak_counterexample:
  "getUserMedia (granting_host\<lparr>addModule := Some (DOMException ''AbortError'')\<rparr>)
     = Inr [\<lparr>track_id = 2, kind = AudioKind\<rparr>]
   \<and> snd (streamMicrophone (granting_host\<lparr>addModule := Some (DOMException ''AbortError'')\<rparr>) NoOptions)
     = Inl (DOMException ''AbortError'')
   \<and> StopTrack \<lparr>track_id = 2, kind = AudioKind\<rparr>
       \<notin> set (fst (streamMicrophone (granting_host\<lparr>addModule := Some (DOMException ''AbortError'')\<rparr>) NoOptions))
   \<and> CloseAudioContext
       \<notin> set (fst (streamMicrophone (granting_host\<lparr>addModule := Some (DOMException ''AbortError'')\<rparr>) NoOptions))
   \<and> RevokeObjectURL ''blob:1''
       \<notin> set (fst (streamMicrophone (granting_host\<lparr>addModule := Some (DOMException ''AbortError'')\<rparr>) NoOptions))"
  by (simp add: streamMicrophone_def granting_host_def options_of_def js_or_def Let_def)




end
